theory Spec2Isabelle
  imports Main
begin

section \<open>Values shared by the operations\<close>

text \<open>
  viem's \<open>Hex\<close>, \<open>Address\<close> and \<open>Hash\<close> are the template type \<^verbatim>\<open>`0x${string}`\<close>: a string
  that starts with \<open>0x\<close>. The constructor carries the text after the prefix, so every value
  is a non-empty (truthy) JavaScript string, as the source type guarantees.
\<close>

datatype hex = Hex string

type_synonym address = hex
type_synonym hash = hex

definition zeroAddress :: address where
  "zeroAddress = Hex ''0000000000000000000000000000000000000000''"

text \<open>
  Every \<open>throw\<close> of the sources is a constructor. The sources throw plain \<open>Error\<close> objects
  that differ in their message; the constructors are named after the failure kinds of the
  specification and carry the values that the message interpolates.
\<close>

datatype error =
    UnsupportedParentChain nat
  | InvalidBatchPoster
  | InvalidValidatorSet
  | ChainConfigSyntaxError
  | FeeTokenNotSupported
  | UnsupportedFeeTokenDecimals
  | MissingGasBase
  | UnexpectedEventCount address nat
  | MissingTransactionHash address
  | UnexpectedTicketCount nat
  | TicketNotRedeemed string
  | CollaboratorFailure

text \<open>
  What \<open>await\<close> on a promise of an external collaborator (RPC client, cross-chain message
  library) gives: a value, a rejection, or nothing ever. A rejection carries no reason here:
  the operations never inspect it, they let it propagate.
\<close>

datatype 'a awaited = Fulfilled 'a | Rejected | Pending

text \<open>What an \<open>async\<close> operation of the sources does: it returns, throws, or never settles.\<close>

datatype 'a outcome = Returns 'a | Throws error | NeverSettles

section \<open>Data of the deployment transaction builder\<close>

record ChainConfig =
  DataAvailabilityCommittee :: bool

record Config =
  chainConfig :: string

record CreateRollupParams =
  config :: Config
  batchPoster :: address
  validators :: "address list"
  nativeToken :: address

record GasOverrideOptions =
  base :: "int option"
  percentIncrease :: int

record TransactionRequestGasOverrides =
  gasLimit :: "GasOverrideOptions option"

text \<open>The object \<open>{ ...defaults, ...params, maxDataSize }\<close>: the caller's parameters win over
  the defaults, and the derived \<open>maxDataSize\<close> wins over both. The defaults themselves
  (\<open>./createRollupDefaults\<close>) only supply fields that the parameters leave out; they are read
  by the encoder and the call-value function, which are parameters of the model.\<close>

record ParamsWithDefaults =
  merged_params :: CreateRollupParams
  maxDataSize :: int

text \<open>The argument of \<open>publicClient.prepareTransactionRequest\<close>.\<close>

record PrepareTransactionRequestParameters =
  tx_chain :: nat
  tx_to :: address
  tx_data :: string
  tx_value :: int
  tx_account :: address
  tx_gas :: "int option"

text \<open>The request the RPC layer hands back; \<open>req_gas\<close> is \<open>request.gas\<close>, possibly undefined.\<close>

record TransactionRequest =
  req_to :: address
  req_data :: string
  req_value :: int
  req_account :: address
  req_gas :: "int option"

text \<open>The result \<open>{ ...request, chainId }\<close>.\<close>

record PreparedTransactionRequest =
  request :: TransactionRequest
  chainId :: nat

section \<open>Data of the transaction resolver\<close>

text \<open>A block bound of a log query: a bigint block number, \<open>'earliest'\<close> or \<open>'latest'\<close>.\<close>

datatype blockTag = BlockNumber int | Earliest | Latest

record AbiParameter =
  indexed :: bool
  internalType :: string
  param_name :: string
  param_type :: string

record AbiEvent =
  anonymous :: bool
  inputs :: "AbiParameter list"
  event_name :: string
  event_type :: string

record GetLogsParameters =
  log_address :: address
  log_event :: AbiEvent
  fromBlock :: blockTag
  toBlock :: blockTag

text \<open>A log entry; \<open>transactionHash\<close> is \<open>Hash | null\<close> in the RPC client's types.\<close>

record Log =
  emitter :: address
  transactionHash :: "hash option"

section \<open>The RPC client and the parts of the SDK outside the verified files\<close>

text \<open>
  The RPC client is a collaborator, given by its answers: its network id, the token
  contract's answer to \<open>decimals()\<close>, and its answers to \<open>prepareTransactionRequest\<close> and
  \<open>getLogs\<close>.
\<close>

record PublicClient =
  chain :: nat
  decimals :: "address \<Rightarrow> int awaited"
  prepareTransactionRequest :: "PrepareTransactionRequestParameters \<Rightarrow> TransactionRequest awaited"
  getLogs :: "GetLogsParameters \<Rightarrow> Log list awaited"

text \<open>
  Constants, tables and opaque capabilities that the verified files import from modules
  that are not among the sources. They are parameters: every theorem holds for each choice.
  \<^item> \<open>supportedParentChains\<close>: the allow-list behind \<open>validateParentChain\<close>;
  \<^item> \<open>JSON_parse\<close>: JavaScript's \<open>JSON.parse\<close> read at type \<open>ChainConfig\<close>, \<open>None\<close> when it
    throws its \<open>SyntaxError\<close>;
  \<^item> \<open>createRollupGetMaxDataSize\<close>, \<open>getRollupCreatorAddress\<close>,
    \<open>createRollupEncodeFunctionData\<close> (the ABI encoder) and \<open>createRollupGetCallValue\<close>.
\<close>

record Sdk =
  supportedParentChains :: "nat list"
  JSON_parse :: "string \<Rightarrow> ChainConfig option"
  createRollupGetMaxDataSize :: "nat \<Rightarrow> int"
  getRollupCreatorAddress :: "PublicClient \<Rightarrow> address"
  createRollupEncodeFunctionData :: "ParamsWithDefaults \<Rightarrow> string"
  createRollupGetCallValue :: "ParamsWithDefaults \<Rightarrow> int"

text \<open>The calls an operation makes against the RPC client, in the order it makes them.\<close>

datatype rpc_call =
    ReadDecimals address
  | PrepareTransactionRequest PrepareTransactionRequestParameters
  | GetLogs GetLogsParameters

section \<open>Helpers of the SDK that the verified files call\<close>

text \<open>Modelled from the spec: \<open>validateParentChain\<close> (\<open>./types/ParentChain\<close>) is not among
  the sources. The specification: it validates the network identity of the RPC client
  against a supported-network allow-list and fails with \<open>UnsupportedParentChain\<close> otherwise;
  on success it gives the network id.\<close>

definition validateParentChain :: "Sdk \<Rightarrow> PublicClient \<Rightarrow> error + nat" where
  "validateParentChain sdk publicClient =
     (if chain publicClient \<in> set (supportedParentChains sdk)
      then Inr (chain publicClient)
      else Inl (UnsupportedParentChain (chain publicClient)))"

text \<open>Modelled from the spec: \<open>isCustomFeeTokenAddress\<close> (\<open>./utils/isCustomFeeTokenAddress\<close>)
  is not among the sources. The specification: the zero address stands for the native gas
  token, every other address is a custom fee token.\<close>

definition isCustomFeeTokenAddress :: "address \<Rightarrow> bool" where
  "isCustomFeeTokenAddress a = (a \<noteq> zeroAddress)"

text \<open>Modelled from the spec: \<open>isAnyTrustChainConfig\<close> (\<open>./utils/isAnyTrustChainConfig\<close>) is
  not among the sources. The specification: the chain configuration has a boolean flag that
  says whether the chain uses the committee-based data-availability mode; the error message
  of the caller names it \<open>arbitrum.DataAvailabilityCommittee\<close>.\<close>

definition isAnyTrustChainConfig :: "ChainConfig \<Rightarrow> bool" where
  "isAnyTrustChainConfig c = DataAvailabilityCommittee c"

text \<open>Modelled from the spec: \<open>fetchDecimals\<close> (\<open>./utils/erc20\<close>) is not among the sources.
  The specification: the decimal count is fetched from the token contract, through the
  token metadata collaborator \<open>decimals(tokenAddress)\<close>.\<close>

definition fetchDecimals :: "address \<Rightarrow> PublicClient \<Rightarrow> int awaited" where
  "fetchDecimals a publicClient = decimals publicClient a"

text \<open>Modelled from the spec: \<open>applyPercentIncrease\<close> (\<open>./utils/gasOverrides\<close>) is not among
  the sources. The specification: given a base gas amount and a percent-increase it returns
  \<open>base + floor(base * percentIncrease / 100)\<close> in integer arithmetic, and it fails with
  \<open>MissingGasBase\<close> when there is no base (no override, and no estimate either). The base is
  optional here because the caller passes \<open>request.gas!\<close>, whose \<open>!\<close> is erased at run time.\<close>

definition applyPercentIncrease :: "int option \<Rightarrow> int \<Rightarrow> error + int" where
  "applyPercentIncrease b p =
     (case b of
        None \<Rightarrow> Inl MissingGasBase
      | Some v \<Rightarrow> Inr (v + (v * p) div 100))"

section \<open>createRollupPrepareTransactionRequest\<close>

text \<open>The \<open>gas\<close> field of the argument of \<open>prepareTransactionRequest\<close>:
  \<^verbatim>\<open>typeof gasOverrides?.gasLimit?.base !== 'undefined' ? 0n : undefined\<close>.\<close>

definition requestedGas :: "TransactionRequestGasOverrides option \<Rightarrow> int option" where
  "requestedGas gasOverrides =
     (case gasOverrides of
        None \<Rightarrow> None
      | Some ov \<Rightarrow>
          (case gasLimit ov of
             None \<Rightarrow> None
           | Some gl \<Rightarrow> (case base gl of None \<Rightarrow> None | Some b \<Rightarrow> Some 0)))"

text \<open>The end of the function: the potential gas-limit override on the prepared request,
  and the result \<open>{ ...request, chainId }\<close>. The base is
  \<^verbatim>\<open>gasOverrides.gasLimit.base ?? request.gas!\<close>.\<close>

definition applyGasOverrides ::
  "nat \<Rightarrow> TransactionRequestGasOverrides option \<Rightarrow> TransactionRequest
     \<Rightarrow> PreparedTransactionRequest outcome" where
  "applyGasOverrides cid gasOverrides req =
     (case gasOverrides of
        None \<Rightarrow> Returns \<lparr>request = req, chainId = cid\<rparr>
      | Some ov \<Rightarrow>
          (case gasLimit ov of
             None \<Rightarrow> Returns \<lparr>request = req, chainId = cid\<rparr>
           | Some gl \<Rightarrow>
               (case applyPercentIncrease
                       (case base gl of Some b \<Rightarrow> Some b | None \<Rightarrow> req_gas req)
                       (percentIncrease gl) of
                  Inl e \<Rightarrow> Throws e
                | Inr g \<Rightarrow> Returns \<lparr>request = req\<lparr>req_gas := Some g\<rparr>, chainId = cid\<rparr>)))"

text \<open>The argument object of the call to \<open>prepareTransactionRequest\<close>, from
  \<open>maxDataSize\<close> and \<open>paramsWithDefaults\<close> on.\<close>

definition prepareParameters ::
  "Sdk \<Rightarrow> CreateRollupParams \<Rightarrow> address \<Rightarrow> PublicClient
     \<Rightarrow> TransactionRequestGasOverrides option \<Rightarrow> address option \<Rightarrow> nat
     \<Rightarrow> PrepareTransactionRequestParameters" where
  "prepareParameters sdk params account publicClient gasOverrides rollupCreatorAddressOverride cid =
     (let paramsWithDefaults =
            \<lparr>merged_params = params, maxDataSize = createRollupGetMaxDataSize sdk cid\<rparr>
      in \<lparr>tx_chain = chain publicClient,
          tx_to = (case rollupCreatorAddressOverride of
                     Some a \<Rightarrow> a
                   | None \<Rightarrow> getRollupCreatorAddress sdk publicClient),
          tx_data = createRollupEncodeFunctionData sdk paramsWithDefaults,
          tx_value = createRollupGetCallValue sdk paramsWithDefaults,
          tx_account = account,
          tx_gas = requestedGas gasOverrides\<rparr>)"

text \<open>The part of the function after the fee-token rules: the request is prepared by the
  RPC layer, then the gas override is applied.\<close>

definition prepareAndOverride ::
  "Sdk \<Rightarrow> CreateRollupParams \<Rightarrow> address \<Rightarrow> PublicClient
     \<Rightarrow> TransactionRequestGasOverrides option \<Rightarrow> address option \<Rightarrow> nat
     \<Rightarrow> rpc_call list \<times> PreparedTransactionRequest outcome" where
  "prepareAndOverride sdk params account publicClient gasOverrides rollupCreatorAddressOverride cid =
     (let args = prepareParameters sdk params account publicClient gasOverrides
                   rollupCreatorAddressOverride cid
      in ([PrepareTransactionRequest args],
          case prepareTransactionRequest publicClient args of
            Fulfilled req \<Rightarrow> applyGasOverrides cid gasOverrides req
          | Rejected \<Rightarrow> Throws CollaboratorFailure
          | Pending \<Rightarrow> NeverSettles))"

text \<open>The whole function. The first component of the result is the list of calls made
  against the RPC client, the second what the caller of the \<open>async\<close> function observes.\<close>

definition createRollupPrepareTransactionRequest ::
  "Sdk \<Rightarrow> CreateRollupParams \<Rightarrow> address \<Rightarrow> PublicClient
     \<Rightarrow> TransactionRequestGasOverrides option \<Rightarrow> address option
     \<Rightarrow> rpc_call list \<times> PreparedTransactionRequest outcome" where
  "createRollupPrepareTransactionRequest sdk params account publicClient gasOverrides
       rollupCreatorAddressOverride =
     (case validateParentChain sdk publicClient of
        Inl e \<Rightarrow> ([], Throws e)
      | Inr cid \<Rightarrow>
          if batchPoster params = zeroAddress then ([], Throws InvalidBatchPoster)
          else if validators params = [] \<or> zeroAddress \<in> set (validators params)
            then ([], Throws InvalidValidatorSet)
          else
            (case JSON_parse sdk (chainConfig (config params)) of
               None \<Rightarrow> ([], Throws ChainConfigSyntaxError)
             | Some cc \<Rightarrow>
                 if isCustomFeeTokenAddress (nativeToken params) then
                   if \<not> isAnyTrustChainConfig cc then ([], Throws FeeTokenNotSupported)
                   else
                     (case fetchDecimals (nativeToken params) publicClient of
                        Rejected \<Rightarrow> ([ReadDecimals (nativeToken params)], Throws CollaboratorFailure)
                      | Pending \<Rightarrow> ([ReadDecimals (nativeToken params)], NeverSettles)
                      | Fulfilled d \<Rightarrow>
                          if d \<noteq> 18
                          then ([ReadDecimals (nativeToken params)],
                                Throws UnsupportedFeeTokenDecimals)
                          else
                            (let r = prepareAndOverride sdk params account publicClient
                                       gasOverrides rollupCreatorAddressOverride cid
                             in (ReadDecimals (nativeToken params) # fst r, snd r)))
                 else prepareAndOverride sdk params account publicClient gasOverrides
                        rollupCreatorAddressOverride cid))"

section \<open>createRollupFetchTransactionHash\<close>

text \<open>The chain ids that the table below is keyed by come from \<open>./chains\<close>, which is not
  among the sources: they are parameters.\<close>

record Chains =
  mainnet :: nat
  arbitrumOne :: nat
  arbitrumNova :: nat
  sepolia :: nat
  holesky :: nat
  arbitrumSepolia :: nat
  nitroTestnodeL1 :: nat
  nitroTestnodeL2 :: nat

definition RollupInitializedEventAbi :: AbiEvent where
  "RollupInitializedEventAbi =
     \<lparr>anonymous = False,
      inputs =
        [\<lparr>indexed = False, internalType = ''bytes32'', param_name = ''machineHash'',
           param_type = ''bytes32''\<rparr>,
         \<lparr>indexed = False, internalType = ''uint256'', param_name = ''chainId'',
           param_type = ''uint256''\<rparr>],
      event_name = ''RollupInitialized'',
      event_type = ''event''\<rparr>"

text \<open>The object literal with computed keys: a later entry replaces an earlier one with
  the same key, as a later map update does.\<close>

definition earliestRollupCreatorDeploymentBlockNumber :: "Chains \<Rightarrow> nat \<rightharpoonup> int" where
  "earliestRollupCreatorDeploymentBlockNumber ch =
     [mainnet ch \<mapsto> 18736164,
      arbitrumOne ch \<mapsto> 150599584,
      arbitrumNova ch \<mapsto> 47798739,
      sepolia ch \<mapsto> 4741823,
      holesky ch \<mapsto> 1083992,
      arbitrumSepolia ch \<mapsto> 654628,
      nitroTestnodeL1 ch \<mapsto> 0,
      nitroTestnodeL2 ch \<mapsto> 0]"

text \<open>\<^verbatim>\<open>chainId in table ? table[chainId] : 'earliest'\<close>\<close>

definition fromBlockOf :: "Chains \<Rightarrow> nat \<Rightarrow> blockTag" where
  "fromBlockOf ch cid =
     (case earliestRollupCreatorDeploymentBlockNumber ch cid of
        Some n \<Rightarrow> BlockNumber n
      | None \<Rightarrow> Earliest)"

definition createRollupFetchTransactionHash ::
  "Chains \<Rightarrow> Sdk \<Rightarrow> address \<Rightarrow> PublicClient \<Rightarrow> rpc_call list \<times> hash outcome" where
  "createRollupFetchTransactionHash ch sdk rollup publicClient =
     (case validateParentChain sdk publicClient of
        Inl e \<Rightarrow> ([], Throws e)
      | Inr cid \<Rightarrow>
          (let query = \<lparr>log_address = rollup, log_event = RollupInitializedEventAbi,
                        fromBlock = fromBlockOf ch cid, toBlock = Latest\<rparr>
           in ([GetLogs query],
               case getLogs publicClient query of
                 Rejected \<Rightarrow> Throws CollaboratorFailure
               | Pending \<Rightarrow> NeverSettles
               | Fulfilled rollupInitializedEvents \<Rightarrow>
                   if length rollupInitializedEvents \<noteq> 1
                   then Throws (UnexpectedEventCount rollup (length rollupInitializedEvents))
                   else
                     (case transactionHash (rollupInitializedEvents ! 0) of
                        None \<Rightarrow> Throws (MissingTransactionHash rollup)
                      | Some h \<Rightarrow> Returns h))))"

section \<open>waitForRetryables\<close>

text \<open>
  What \<open>message.waitForStatus()\<close> resolves to: a status, and the child-chain receipt
  \<open>l2TxReceipt\<close> exactly when the status is \<open>REDEEMED\<close> (the discriminated union of
  \<open>@arbitrum/sdk\<close>, of which the source names the \<open>REDEEMED\<close> member
  \<open>RedeemedRetryableTicket\<close>). \<open>'er\<close> is the ethers receipt type, \<open>'vr\<close> the viem one.
\<close>

datatype 'er L1ToL2MessageWaitResult =
    NOT_YET_CREATED
  | CREATION_FAILED
  | FUNDS_DEPOSITED_ON_L2
  | REDEEMED 'er
  | EXPIRED

text \<open>A derived message: its identifier, and what awaiting its \<open>waitForStatus()\<close> gives.\<close>

record 'er L1ToL2Message =
  retryableCreationId :: string
  waitForStatus :: "'er L1ToL2MessageWaitResult awaited"

text \<open>The collaborators: the receipt and client adapters, and the derivation of the
  messages from the parent receipt (\<open>new L1TransactionReceipt(r).getL1ToL2Messages(p)\<close>).\<close>

record ('vr, 'er, 'c, 'p) Collaborators =
  viemTransactionReceiptToEthersTransactionReceipt :: "'vr \<Rightarrow> 'er"
  publicClientToProvider :: "'c \<Rightarrow> 'p"
  getL1ToL2Messages :: "'er \<Rightarrow> 'p \<Rightarrow> 'er L1ToL2Message list awaited"
  ethersTransactionReceiptToViemTransactionReceipt :: "'er \<Rightarrow> 'vr"

datatype 'er message_call =
    GetL1ToL2Messages
  | WaitForStatus "'er L1ToL2Message"

text \<open>\<open>Promise.all\<close>: it rejects as soon as one promise rejects, whatever the others do;
  otherwise it settles only when all have, with the values in the order of the array.\<close>

fun Promise_all :: "'a awaited list \<Rightarrow> 'a list awaited" where
  "Promise_all [] = Fulfilled []"
| "Promise_all (p # ps) =
     (case p of
        Rejected \<Rightarrow> Rejected
      | Pending \<Rightarrow> (case Promise_all ps of Rejected \<Rightarrow> Rejected | _ \<Rightarrow> Pending)
      | Fulfilled x \<Rightarrow>
          (case Promise_all ps of
             Fulfilled xs \<Rightarrow> Fulfilled (x # xs)
           | Rejected \<Rightarrow> Rejected
           | Pending \<Rightarrow> Pending))"

fun l2TxReceipt :: "'er L1ToL2MessageWaitResult \<Rightarrow> 'er option" where
  "l2TxReceipt (REDEEMED r) = Some r"
| "l2TxReceipt _ = None"

text \<open>The function. After the two checks the results are one redeemed ticket, which the
  source expresses by a cast to \<open>[RedeemedRetryableTicket]\<close> before it maps the receipt
  adapter over \<open>result.l2TxReceipt\<close>.\<close>

definition waitForRetryables ::
  "('vr, 'er, 'c, 'p) Collaborators \<Rightarrow> 'vr \<Rightarrow> 'c
     \<Rightarrow> 'er message_call list \<times> 'vr list outcome" where
  "waitForRetryables lib txReceipt orbitPublicClient =
     (let ethersTxReceipt = viemTransactionReceiptToEthersTransactionReceipt lib txReceipt;
          orbitProvider = publicClientToProvider lib orbitPublicClient
      in case getL1ToL2Messages lib ethersTxReceipt orbitProvider of
           Rejected \<Rightarrow> ([GetL1ToL2Messages], Throws CollaboratorFailure)
         | Pending \<Rightarrow> ([GetL1ToL2Messages], NeverSettles)
         | Fulfilled messages \<Rightarrow>
             (GetL1ToL2Messages # map WaitForStatus messages,
              case Promise_all (map waitForStatus messages) of
                Rejected \<Rightarrow> Throws CollaboratorFailure
              | Pending \<Rightarrow> NeverSettles
              | Fulfilled messagesResults \<Rightarrow>
                  if length messagesResults \<noteq> 1
                  then Throws (UnexpectedTicketCount (length messagesResults))
                  else
                    (case messagesResults ! 0 of
                       REDEEMED r \<Rightarrow>
                         Returns (map (ethersTransactionReceiptToViemTransactionReceipt lib)
                                    (List.map_filter l2TxReceipt messagesResults))
                     | _ \<Rightarrow> Throws (TicketNotRedeemed (retryableCreationId (messages ! 0))))))"

section \<open>Concrete inputs\<close>

text \<open>Inputs on which the theorems below are instantiated and the definitions evaluated.
  The chain ids are the public ones of the eight networks of the table.\<close>

definition exampleChains :: Chains where
  "exampleChains =
     \<lparr>mainnet = 1, arbitrumOne = 42161, arbitrumNova = 42170, sepolia = 11155111,
      holesky = 17000, arbitrumSepolia = 421614, nitroTestnodeL1 = 1337,
      nitroTestnodeL2 = 412346\<rparr>"

definition anyTrustJson :: string where
  \<open>anyTrustJson = ''{"chainId":97400,"arbitrum":{"DataAvailabilityCommittee":true}}''\<close>

definition rollupJson :: string where
  \<open>rollupJson = ''{"chainId":97400,"arbitrum":{"DataAvailabilityCommittee":false}}''\<close>

text \<open>A stand-in for \<open>JSON.parse\<close> that knows the two texts above and rejects every other.\<close>

definition exampleParse :: "string \<Rightarrow> ChainConfig option" where
  "exampleParse s =
     (if s = anyTrustJson then Some \<lparr>DataAvailabilityCommittee = True\<rparr>
      else if s = rollupJson then Some \<lparr>DataAvailabilityCommittee = False\<rparr>
      else None)"

definition exampleSdk :: Sdk where
  "exampleSdk =
     \<lparr>supportedParentChains = [1, 42161, 42170, 11155111, 17000, 421614, 1337, 412346, 8453],
      JSON_parse = exampleParse,
      createRollupGetMaxDataSize = (\<lambda>cid. if cid = 1 then 117964 else 104857),
      getRollupCreatorAddress = (\<lambda>c. Hex ''90d68b056c411015eae3ec0b98ad94e2c91419f1''),
      createRollupEncodeFunctionData = (\<lambda>p. ''cb73d6e2''),
      createRollupGetCallValue = (\<lambda>p. 0)\<rparr>"

definition exampleParams :: "address \<Rightarrow> address list \<Rightarrow> address \<Rightarrow> string \<Rightarrow> CreateRollupParams" where
  "exampleParams bp vs tok cc =
     \<lparr>config = \<lparr>chainConfig = cc\<rparr>, batchPoster = bp, validators = vs, nativeToken = tok\<rparr>"

definition addrA :: address where
  "addrA = Hex ''00000000000000000000000000000000000000a1''"

definition addrB :: address where
  "addrB = Hex ''00000000000000000000000000000000000000b2''"

definition addrT :: address where
  "addrT = Hex ''00000000000000000000000000000000000000c3''"

definition hashH :: hash where
  "hashH = Hex ''5e1a7e''"

text \<open>A client on network \<open>cid\<close> whose token contract answers \<open>dec\<close>, whose estimator
  would produce \<open>est\<close> (it keeps a gas value it is given, as the RPC layer does), and whose
  log index answers \<open>logs\<close>.\<close>

definition exampleClient :: "nat \<Rightarrow> int awaited \<Rightarrow> int option \<Rightarrow> Log list awaited \<Rightarrow> PublicClient" where
  "exampleClient cid dec est logs =
     \<lparr>chain = cid,
      decimals = (\<lambda>a. dec),
      prepareTransactionRequest =
        (\<lambda>args. Fulfilled
           \<lparr>req_to = tx_to args, req_data = tx_data args, req_value = tx_value args,
            req_account = tx_account args,
            req_gas = (case tx_gas args of Some g \<Rightarrow> Some g | None \<Rightarrow> est)\<rparr>),
      getLogs = (\<lambda>q. logs)\<rparr>"

definition exampleOverrides :: "int option \<Rightarrow> int \<Rightarrow> TransactionRequestGasOverrides option" where
  "exampleOverrides b p = Some \<lparr>gasLimit = Some \<lparr>base = b, percentIncrease = p\<rparr>\<rparr>"

text \<open>Collaborators of \<open>waitForRetryables\<close> over receipts that are plain strings, deriving
  the messages \<open>ms\<close>.\<close>

definition exampleLib ::
  "string L1ToL2Message list awaited \<Rightarrow> (string, string, nat, nat) Collaborators" where
  "exampleLib ms =
     \<lparr>viemTransactionReceiptToEthersTransactionReceipt = (\<lambda>r. ''ethers:'' @ r),
      publicClientToProvider = (\<lambda>c. c),
      getL1ToL2Messages = (\<lambda>r p. ms),
      ethersTransactionReceiptToViemTransactionReceipt = (\<lambda>r. ''viem:'' @ r)\<rparr>"

definition exampleMessage ::
  "string \<Rightarrow> string L1ToL2MessageWaitResult awaited \<Rightarrow> string L1ToL2Message" where
  "exampleMessage i w = \<lparr>retryableCreationId = i, waitForStatus = w\<rparr>"

section \<open>Facts about the pieces\<close>

lemmas builder_defs =
  createRollupPrepareTransactionRequest_def validateParentChain_def
  isCustomFeeTokenAddress_def isAnyTrustChainConfig_def fetchDecimals_def
  prepareAndOverride_def prepareParameters_def requestedGas_def
  applyGasOverrides_def applyPercentIncrease_def Let_def

lemmas resolver_defs =
  createRollupFetchTransactionHash_def validateParentChain_def fromBlockOf_def
  earliestRollupCreatorDeploymentBlockNumber_def Let_def

lemmas example_defs =
  exampleSdk_def exampleParams_def exampleClient_def exampleOverrides_def exampleParse_def
  exampleChains_def exampleLib_def exampleMessage_def anyTrustJson_def rollupJson_def
  addrA_def addrB_def addrT_def hashH_def zeroAddress_def

lemma prepareAndOverride_calls:
  "fst (prepareAndOverride sdk params account publicClient go rov cid) =
     [PrepareTransactionRequest (prepareParameters sdk params account publicClient go rov cid)]"
  by (simp add: prepareAndOverride_def Let_def)

lemma prepareAndOverride_result:
  "snd (prepareAndOverride sdk params account publicClient go rov cid) =
     (case prepareTransactionRequest publicClient
             (prepareParameters sdk params account publicClient go rov cid) of
        Fulfilled req \<Rightarrow> applyGasOverrides cid go req
      | Rejected \<Rightarrow> Throws CollaboratorFailure
      | Pending \<Rightarrow> NeverSettles)"
  by (simp add: prepareAndOverride_def Let_def)

text \<open>A call of \<open>prepareTransactionRequest\<close> in the trace is the one of the last part of the
  function, on the validated network id, and the outcome is then that of this last part.\<close>

lemma reaches_prepare:
  assumes "PrepareTransactionRequest args \<in>
             set (fst (createRollupPrepareTransactionRequest sdk params account publicClient go rov))"
  shows "args = prepareParameters sdk params account publicClient go rov (chain publicClient) \<and>
         snd (createRollupPrepareTransactionRequest sdk params account publicClient go rov) =
           snd (prepareAndOverride sdk params account publicClient go rov (chain publicClient))"
  using assms
  by (auto simp: createRollupPrepareTransactionRequest_def validateParentChain_def Let_def
        prepareAndOverride_calls split: if_splits option.splits awaited.splits)


lemma applyGasOverrides_not_fee_token:
  "applyGasOverrides cid go req \<noteq> Throws FeeTokenNotSupported \<and>
   applyGasOverrides cid go req \<noteq> Throws UnsupportedFeeTokenDecimals"
  by (auto simp: applyGasOverrides_def applyPercentIncrease_def split: option.splits sum.splits)

lemma prepareAndOverride_not_fee_token:
  "snd (prepareAndOverride sdk params account publicClient go rov cid) \<noteq>
     Throws FeeTokenNotSupported \<and>
   snd (prepareAndOverride sdk params account publicClient go rov cid) \<noteq>
     Throws UnsupportedFeeTokenDecimals"
  by (simp add: prepareAndOverride_result applyGasOverrides_not_fee_token split: awaited.splits)

lemma Promise_all_Rejected_iff:
  "Promise_all ps = Rejected \<longleftrightarrow> Rejected \<in> set ps"
  by (induction ps) (auto split: awaited.splits)

lemma Promise_all_Pending_iff:
  "Promise_all ps = Pending \<longleftrightarrow> Rejected \<notin> set ps \<and> Pending \<in> set ps"
proof (induction ps)
  case Nil
  show ?case by simp
next
  case (Cons p ps)
  show ?case
  proof (cases p)
    case (Fulfilled x)
    with Cons show ?thesis by (auto split: awaited.splits)
  next
    case Rejected
    then show ?thesis by simp
  next
    case Pending
    then show ?thesis
      using Promise_all_Rejected_iff[of ps] by (auto split: awaited.splits)
  qed
qed

lemma Promise_all_all_fulfilled:
  assumes "\<forall>p \<in> set ps. \<exists>x. p = Fulfilled x"
  shows "\<exists>xs. Promise_all ps = Fulfilled xs \<and> length xs = length ps"
  using assms
  by (induction ps) (auto split: awaited.splits)

section \<open>The validation order of createRollupPrepareTransactionRequest\<close>

text \<open>
  Claim C8, as amended. For every \<open>DeploymentParams\<close> whose batch-poster address is the zero
  address, \<open>buildDeploymentTransaction\<close> fails before any RPC call: with
  \<open>InvalidBatchPoster\<close> when the client's parent chain is supported, and with the failure of
  the parent-chain validation, which comes first, otherwise.
\<close>

theorem zero_batch_poster_fails:
  assumes "batchPoster params = zeroAddress"
  shows "createRollupPrepareTransactionRequest sdk params account publicClient gasOverrides
           rollupCreatorAddressOverride =
         ([], Throws (case validateParentChain sdk publicClient of
                        Inl e \<Rightarrow> e
                      | Inr cid \<Rightarrow> InvalidBatchPoster))"
  using assms
  by (simp add: createRollupPrepareTransactionRequest_def split: sum.splits)

text \<open>On the supported network 1, a zero batch-poster gives \<open>InvalidBatchPoster\<close>.\<close>

theorem zero_batch_poster_fails_witness:
  "batchPoster (exampleParams zeroAddress [addrA] zeroAddress rollupJson) = zeroAddress
   \<and> createRollupPrepareTransactionRequest exampleSdk
       (exampleParams zeroAddress [addrA] zeroAddress rollupJson) addrB
       (exampleClient 1 Pending (Some 21000) Rejected) None None =
     ([], Throws InvalidBatchPoster)"
  using zero_batch_poster_fails
          [where params = "exampleParams zeroAddress [addrA] zeroAddress rollupJson"
             and sdk = exampleSdk and account = addrB
             and publicClient = "exampleClient 1 Pending (Some 21000) Rejected"
             and gasOverrides = None and rollupCreatorAddressOverride = None]
  by (simp add: validateParentChain_def example_defs)

text \<open>The claim as written fails on the unsupported network 5: the same zero batch-poster
  gives \<open>UnsupportedParentChain\<close>.\<close>

theorem zero_batch_poster_counterexample:
  "batchPoster (exampleParams zeroAddress [addrA] zeroAddress rollupJson) = zeroAddress
   \<and> snd (createRollupPrepareTransactionRequest exampleSdk
            (exampleParams zeroAddress [addrA] zeroAddress rollupJson) addrB
            (exampleClient 5 Pending (Some 21000) Rejected) None None) =
       Throws (UnsupportedParentChain 5)
   \<and> snd (createRollupPrepareTransactionRequest exampleSdk
            (exampleParams zeroAddress [addrA] zeroAddress rollupJson) addrB
            (exampleClient 5 Pending (Some 21000) Rejected) None None) \<noteq>
       Throws InvalidBatchPoster"
  by (simp add: builder_defs example_defs)

text \<open>
  Claim C9, as amended. For every \<open>DeploymentParams\<close> whose validator set is empty or
  contains the zero address, \<open>buildDeploymentTransaction\<close> fails before any RPC call: with
  \<open>InvalidValidatorSet\<close> when the parent chain is supported and the batch-poster is not the
  zero address; the parent-chain validation and the batch-poster check come first and
  decide the failure otherwise.
\<close>

theorem invalid_validators_fail:
  assumes "validators params = [] \<or> zeroAddress \<in> set (validators params)"
  shows "createRollupPrepareTransactionRequest sdk params account publicClient gasOverrides
           rollupCreatorAddressOverride =
         ([], Throws (case validateParentChain sdk publicClient of
                        Inl e \<Rightarrow> e
                      | Inr cid \<Rightarrow>
                          if batchPoster params = zeroAddress then InvalidBatchPoster
                          else InvalidValidatorSet))"
  using assms
  by (auto simp add: createRollupPrepareTransactionRequest_def split: sum.splits)

text \<open>An empty validator set, and one with the zero address in second place, both with a
  proper batch-poster on the supported network 1.\<close>

theorem invalid_validators_fail_witness:
  "validators (exampleParams addrA [] zeroAddress rollupJson) = []
   \<and> createRollupPrepareTransactionRequest exampleSdk
       (exampleParams addrA [] zeroAddress rollupJson) addrB
       (exampleClient 1 Pending (Some 21000) Rejected) None None =
     ([], Throws InvalidValidatorSet)
   \<and> zeroAddress \<in> set (validators (exampleParams addrA [addrB, zeroAddress] zeroAddress rollupJson))
   \<and> createRollupPrepareTransactionRequest exampleSdk
       (exampleParams addrA [addrB, zeroAddress] zeroAddress rollupJson) addrB
       (exampleClient 1 Pending (Some 21000) Rejected) None None =
     ([], Throws InvalidValidatorSet)"
  using invalid_validators_fail
          [where params = "exampleParams addrA [] zeroAddress rollupJson"
             and sdk = exampleSdk and account = addrB
             and publicClient = "exampleClient 1 Pending (Some 21000) Rejected"
             and gasOverrides = None and rollupCreatorAddressOverride = None]
        invalid_validators_fail
          [where params = "exampleParams addrA [addrB, zeroAddress] zeroAddress rollupJson"
             and sdk = exampleSdk and account = addrB
             and publicClient = "exampleClient 1 Pending (Some 21000) Rejected"
             and gasOverrides = None and rollupCreatorAddressOverride = None]
  by (simp add: validateParentChain_def example_defs)

text \<open>The claim as written fails when the batch-poster is the zero address too: the empty
  validator set then gives \<open>InvalidBatchPoster\<close>, on a supported network.\<close>

theorem invalid_validators_counterexample:
  "validators (exampleParams zeroAddress [] zeroAddress rollupJson) = []
   \<and> snd (createRollupPrepareTransactionRequest exampleSdk
            (exampleParams zeroAddress [] zeroAddress rollupJson) addrB
            (exampleClient 1 Pending (Some 21000) Rejected) None None) =
       Throws InvalidBatchPoster
   \<and> snd (createRollupPrepareTransactionRequest exampleSdk
            (exampleParams zeroAddress [] zeroAddress rollupJson) addrB
            (exampleClient 1 Pending (Some 21000) Rejected) None None) \<noteq>
       Throws InvalidValidatorSet"
  by (simp add: builder_defs example_defs)

text \<open>
  Claim C10. The chain-config string is parsed on every call that passes the parent-chain,
  batch-poster and validator checks, before any fee-token consideration. So a call with an
  unparseable \<open>chainConfig\<close> always fails, and it makes no RPC call (no decimals are read),
  whatever the native fee-token address is, the zero address included: the failure is the
  one of the parse unless one of the three earlier checks fails first.
\<close>

theorem unparseable_chain_config_fails:
  assumes "JSON_parse sdk (chainConfig (config params)) = None"
  shows "createRollupPrepareTransactionRequest sdk params account publicClient gasOverrides
           rollupCreatorAddressOverride =
         ([], Throws (case validateParentChain sdk publicClient of
                        Inl e \<Rightarrow> e
                      | Inr cid \<Rightarrow>
                          if batchPoster params = zeroAddress then InvalidBatchPoster
                          else if validators params = [] \<or> zeroAddress \<in> set (validators params)
                            then InvalidValidatorSet
                          else ChainConfigSyntaxError))"
  using assms
  by (auto simp add: createRollupPrepareTransactionRequest_def split: sum.splits)

text \<open>An unparseable text with the zero fee-token address, then with a custom fee token,
  then behind a zero batch-poster.\<close>

theorem unparseable_chain_config_fails_witness:
  "JSON_parse exampleSdk (chainConfig (config (exampleParams addrA [addrB] zeroAddress ''{oops''))) = None
   \<and> nativeToken (exampleParams addrA [addrB] zeroAddress ''{oops'') = zeroAddress
   \<and> createRollupPrepareTransactionRequest exampleSdk
       (exampleParams addrA [addrB] zeroAddress ''{oops'') addrB
       (exampleClient 1 (Fulfilled 18) (Some 21000) Rejected) None None =
     ([], Throws ChainConfigSyntaxError)
   \<and> createRollupPrepareTransactionRequest exampleSdk
       (exampleParams addrA [addrB] addrT ''{oops'') addrB
       (exampleClient 1 (Fulfilled 18) (Some 21000) Rejected) None None =
     ([], Throws ChainConfigSyntaxError)
   \<and> createRollupPrepareTransactionRequest exampleSdk
       (exampleParams zeroAddress [addrB] addrT ''{oops'') addrB
       (exampleClient 1 (Fulfilled 18) (Some 21000) Rejected) None None =
     ([], Throws InvalidBatchPoster)"
  using unparseable_chain_config_fails
          [where params = "exampleParams addrA [addrB] zeroAddress ''{oops''"
             and sdk = exampleSdk and account = addrB
             and publicClient = "exampleClient 1 (Fulfilled 18) (Some 21000) Rejected"
             and gasOverrides = None and rollupCreatorAddressOverride = None]
        unparseable_chain_config_fails
          [where params = "exampleParams addrA [addrB] addrT ''{oops''"
             and sdk = exampleSdk and account = addrB
             and publicClient = "exampleClient 1 (Fulfilled 18) (Some 21000) Rejected"
             and gasOverrides = None and rollupCreatorAddressOverride = None]
        unparseable_chain_config_fails
          [where params = "exampleParams zeroAddress [addrB] addrT ''{oops''"
             and sdk = exampleSdk and account = addrB
             and publicClient = "exampleClient 1 (Fulfilled 18) (Some 21000) Rejected"
             and gasOverrides = None and rollupCreatorAddressOverride = None]
  by (simp add: validateParentChain_def example_defs)

section \<open>The fee-token rules\<close>

text \<open>
  Claim C3, as amended. For every call of \<open>buildDeploymentTransaction\<close> that passes the
  parent-chain, batch-poster and validator checks, whose \<open>chainConfig\<close> text parses, and
  whose native fee-token address is not the zero address: if the parsed \<open>ChainConfig\<close> is
  not AnyTrust the operation fails with \<open>FeeTokenNotSupported\<close>, without reading the
  decimals; if it is AnyTrust and the token contract answers a decimal count other than 18,
  the operation fails with \<open>UnsupportedFeeTokenDecimals\<close>; if it answers exactly 18, the
  fee-token validation succeeds: the operation goes on to prepare the request and does not
  fail with either fee-token error.
\<close>

theorem fee_token_rules:
  assumes "validateParentChain sdk publicClient = Inr cid"
    and "batchPoster params \<noteq> zeroAddress"
    and "validators params \<noteq> []" and "zeroAddress \<notin> set (validators params)"
    and "JSON_parse sdk (chainConfig (config params)) = Some cc"
    and "nativeToken params \<noteq> zeroAddress"
  shows "(\<not> isAnyTrustChainConfig cc \<longrightarrow>
            createRollupPrepareTransactionRequest sdk params account publicClient gasOverrides
              rollupCreatorAddressOverride = ([], Throws FeeTokenNotSupported))
       \<and> (\<forall>d. isAnyTrustChainConfig cc
                \<and> fetchDecimals (nativeToken params) publicClient = Fulfilled d \<and> d \<noteq> 18 \<longrightarrow>
            createRollupPrepareTransactionRequest sdk params account publicClient gasOverrides
              rollupCreatorAddressOverride =
                ([ReadDecimals (nativeToken params)], Throws UnsupportedFeeTokenDecimals))
       \<and> (isAnyTrustChainConfig cc
            \<and> fetchDecimals (nativeToken params) publicClient = Fulfilled 18 \<longrightarrow>
            fst (createRollupPrepareTransactionRequest sdk params account publicClient
                   gasOverrides rollupCreatorAddressOverride) =
              [ReadDecimals (nativeToken params),
               PrepareTransactionRequest
                 (prepareParameters sdk params account publicClient gasOverrides
                    rollupCreatorAddressOverride cid)]
          \<and> snd (createRollupPrepareTransactionRequest sdk params account publicClient
                   gasOverrides rollupCreatorAddressOverride) \<noteq> Throws FeeTokenNotSupported
          \<and> snd (createRollupPrepareTransactionRequest sdk params account publicClient
                   gasOverrides rollupCreatorAddressOverride) \<noteq>
                Throws UnsupportedFeeTokenDecimals)"
  using assms
  by (simp add: createRollupPrepareTransactionRequest_def isCustomFeeTokenAddress_def Let_def
        prepareAndOverride_calls prepareAndOverride_not_fee_token)

text \<open>The custom fee token \<open>addrT\<close> on the supported network 1: with a rollup (not
  AnyTrust) configuration; with an AnyTrust configuration and 17, then 19 decimals; and with
  an AnyTrust configuration and 18 decimals, where the request is returned.\<close>

theorem fee_token_rules_witness:
  "validateParentChain exampleSdk (exampleClient 1 (Fulfilled 17) (Some 21000) Rejected) = Inr 1
   \<and> batchPoster (exampleParams addrA [addrB] addrT rollupJson) \<noteq> zeroAddress
   \<and> zeroAddress \<notin> set (validators (exampleParams addrA [addrB] addrT rollupJson))
   \<and> nativeToken (exampleParams addrA [addrB] addrT rollupJson) \<noteq> zeroAddress
   \<and> JSON_parse exampleSdk rollupJson = Some \<lparr>DataAvailabilityCommittee = False\<rparr>
   \<and> JSON_parse exampleSdk anyTrustJson = Some \<lparr>DataAvailabilityCommittee = True\<rparr>
   \<and> createRollupPrepareTransactionRequest exampleSdk
       (exampleParams addrA [addrB] addrT rollupJson) addrB
       (exampleClient 1 (Fulfilled 18) (Some 21000) Rejected) None None =
     ([], Throws FeeTokenNotSupported)
   \<and> createRollupPrepareTransactionRequest exampleSdk
       (exampleParams addrA [addrB] addrT anyTrustJson) addrB
       (exampleClient 1 (Fulfilled 17) (Some 21000) Rejected) None None =
     ([ReadDecimals addrT], Throws UnsupportedFeeTokenDecimals)
   \<and> createRollupPrepareTransactionRequest exampleSdk
       (exampleParams addrA [addrB] addrT anyTrustJson) addrB
       (exampleClient 1 (Fulfilled 19) (Some 21000) Rejected) None None =
     ([ReadDecimals addrT], Throws UnsupportedFeeTokenDecimals)
   \<and> fst (createRollupPrepareTransactionRequest exampleSdk
            (exampleParams addrA [addrB] addrT anyTrustJson) addrB
            (exampleClient 1 (Fulfilled 18) (Some 21000) Rejected) None None) =
       [ReadDecimals addrT,
        PrepareTransactionRequest
          \<lparr>tx_chain = 1, tx_to = Hex ''90d68b056c411015eae3ec0b98ad94e2c91419f1'',
           tx_data = ''cb73d6e2'', tx_value = 0, tx_account = addrB, tx_gas = None\<rparr>]
   \<and> snd (createRollupPrepareTransactionRequest exampleSdk
            (exampleParams addrA [addrB] addrT anyTrustJson) addrB
            (exampleClient 1 (Fulfilled 18) (Some 21000) Rejected) None None) =
       Returns
         \<lparr>request =
            \<lparr>req_to = Hex ''90d68b056c411015eae3ec0b98ad94e2c91419f1'', req_data = ''cb73d6e2'',
             req_value = 0, req_account = addrB, req_gas = Some 21000\<rparr>,
          chainId = 1\<rparr>"
proof -
  let ?rollup = "exampleParams addrA [addrB] addrT rollupJson"
  let ?anyTrust = "exampleParams addrA [addrB] addrT anyTrustJson"
  have chain: "validateParentChain exampleSdk (exampleClient 1 d (Some 21000) Rejected) = Inr 1"
    for d
    by (simp add: validateParentChain_def exampleSdk_def exampleClient_def)
  have bp: "batchPoster (exampleParams addrA [addrB] addrT cc) \<noteq> zeroAddress" for cc
    by (simp add: exampleParams_def addrA_def zeroAddress_def)
  have vs: "validators (exampleParams addrA [addrB] addrT cc) \<noteq> []"
    "zeroAddress \<notin> set (validators (exampleParams addrA [addrB] addrT cc))" for cc
    by (simp_all add: exampleParams_def addrB_def zeroAddress_def)
  have tok: "nativeToken (exampleParams addrA [addrB] addrT cc) \<noteq> zeroAddress" for cc
    by (simp add: exampleParams_def addrT_def zeroAddress_def)
  have parse: "JSON_parse exampleSdk rollupJson = Some \<lparr>DataAvailabilityCommittee = False\<rparr>"
    "JSON_parse exampleSdk anyTrustJson = Some \<lparr>DataAvailabilityCommittee = True\<rparr>"
    by (simp_all add: exampleSdk_def exampleParse_def anyTrustJson_def rollupJson_def)
  have parse': "JSON_parse exampleSdk (chainConfig (config ?rollup)) =
                  Some \<lparr>DataAvailabilityCommittee = False\<rparr>"
    "JSON_parse exampleSdk (chainConfig (config ?anyTrust)) =
                  Some \<lparr>DataAvailabilityCommittee = True\<rparr>"
    using parse by (simp_all add: exampleParams_def)
  have dec: "fetchDecimals addrT (exampleClient c d e l) = d" "nativeToken ?anyTrust = addrT"
    for c d e l
    by (simp_all add: fetchDecimals_def exampleClient_def exampleParams_def)
  have notAnyTrust: "createRollupPrepareTransactionRequest exampleSdk ?rollup addrB
       (exampleClient 1 (Fulfilled 18) (Some 21000) Rejected) None None =
     ([], Throws FeeTokenNotSupported)"
    using fee_token_rules[where account = addrB and gasOverrides = None
            and rollupCreatorAddressOverride = None,
            OF chain[of "Fulfilled 18"] bp vs parse'(1) tok]
    by (simp add: isAnyTrustChainConfig_def)
  have d17: "createRollupPrepareTransactionRequest exampleSdk ?anyTrust addrB
       (exampleClient 1 (Fulfilled 17) (Some 21000) Rejected) None None =
     ([ReadDecimals addrT], Throws UnsupportedFeeTokenDecimals)"
    using fee_token_rules[where account = addrB and gasOverrides = None
            and rollupCreatorAddressOverride = None,
            OF chain[of "Fulfilled 17"] bp vs parse'(2) tok]
    by (simp add: isAnyTrustChainConfig_def dec)
  have d19: "createRollupPrepareTransactionRequest exampleSdk ?anyTrust addrB
       (exampleClient 1 (Fulfilled 19) (Some 21000) Rejected) None None =
     ([ReadDecimals addrT], Throws UnsupportedFeeTokenDecimals)"
    using fee_token_rules[where account = addrB and gasOverrides = None
            and rollupCreatorAddressOverride = None,
            OF chain[of "Fulfilled 19"] bp vs parse'(2) tok]
    by (simp add: isAnyTrustChainConfig_def dec)
  have d18: "fst (createRollupPrepareTransactionRequest exampleSdk ?anyTrust addrB
                    (exampleClient 1 (Fulfilled 18) (Some 21000) Rejected) None None) =
       [ReadDecimals addrT,
        PrepareTransactionRequest
          (prepareParameters exampleSdk ?anyTrust addrB
             (exampleClient 1 (Fulfilled 18) (Some 21000) Rejected) None None 1)]"
    using fee_token_rules[where account = addrB and gasOverrides = None
            and rollupCreatorAddressOverride = None,
            OF chain[of "Fulfilled 18"] bp vs parse'(2) tok]
    by (simp add: isAnyTrustChainConfig_def dec)
  have args: "prepareParameters exampleSdk ?anyTrust addrB
             (exampleClient 1 (Fulfilled 18) (Some 21000) Rejected) None None 1 =
          \<lparr>tx_chain = 1, tx_to = Hex ''90d68b056c411015eae3ec0b98ad94e2c91419f1'',
           tx_data = ''cb73d6e2'', tx_value = 0, tx_account = addrB, tx_gas = None\<rparr>"
    by (simp add: prepareParameters_def requestedGas_def Let_def exampleSdk_def exampleClient_def)
  have ret: "snd (createRollupPrepareTransactionRequest exampleSdk ?anyTrust addrB
            (exampleClient 1 (Fulfilled 18) (Some 21000) Rejected) None None) =
       Returns
         \<lparr>request =
            \<lparr>req_to = Hex ''90d68b056c411015eae3ec0b98ad94e2c91419f1'', req_data = ''cb73d6e2'',
             req_value = 0, req_account = addrB, req_gas = Some 21000\<rparr>,
          chainId = 1\<rparr>"
    by (simp add: builder_defs example_defs)
  show ?thesis
    using chain[of "Fulfilled 17"] bp[of rollupJson] vs(2)[of rollupJson] tok[of rollupJson]
      parse notAnyTrust d17 d19 d18[unfolded args] ret
    by (intro conjI)
qed

text \<open>The claim as written fails when an earlier check fails: a custom fee token with a
  configuration that is not AnyTrust, but a zero batch-poster, gives \<open>InvalidBatchPoster\<close>.\<close>

theorem fee_token_rules_counterexample:
  "nativeToken (exampleParams zeroAddress [addrB] addrT rollupJson) \<noteq> zeroAddress
   \<and> JSON_parse exampleSdk
       (chainConfig (config (exampleParams zeroAddress [addrB] addrT rollupJson))) =
       Some \<lparr>DataAvailabilityCommittee = False\<rparr>
   \<and> \<not> isAnyTrustChainConfig \<lparr>DataAvailabilityCommittee = False\<rparr>
   \<and> snd (createRollupPrepareTransactionRequest exampleSdk
            (exampleParams zeroAddress [addrB] addrT rollupJson) addrB
            (exampleClient 1 (Fulfilled 18) (Some 21000) Rejected) None None) =
       Throws InvalidBatchPoster
   \<and> snd (createRollupPrepareTransactionRequest exampleSdk
            (exampleParams zeroAddress [addrB] addrT rollupJson) addrB
            (exampleClient 1 (Fulfilled 18) (Some 21000) Rejected) None None) \<noteq>
       Throws FeeTokenNotSupported"
  by (simp add: builder_defs example_defs)

section \<open>The gas override\<close>

text \<open>
  Claim C1. For every call of \<open>buildDeploymentTransaction\<close> in which a gasLimit
  percent-increase override is requested without a base, and in which the request that the
  RPC layer prepared for this call carries no gas estimate, the operation fails with
  \<open>MissingGasBase\<close>. (The first hypothesis says that the call got as far as asking the RPC
  layer with the argument \<open>args\<close>; the second and third that the answer was a request
  without gas.)
\<close>

theorem missing_gas_base:
  assumes "PrepareTransactionRequest args \<in>
             set (fst (createRollupPrepareTransactionRequest sdk params account publicClient
                         (Some ov) rollupCreatorAddressOverride))"
    and "prepareTransactionRequest publicClient args = Fulfilled req"
    and "req_gas req = None"
    and "gasLimit ov = Some gl"
    and "base gl = None"
  shows "snd (createRollupPrepareTransactionRequest sdk params account publicClient
                (Some ov) rollupCreatorAddressOverride) = Throws MissingGasBase"
  using reaches_prepare[OF assms(1)] assms(2-)
  by (simp add: prepareAndOverride_result applyGasOverrides_def applyPercentIncrease_def)

text \<open>A client whose estimator produces nothing, and an override of 20 percent without a
  base.\<close>

theorem missing_gas_base_witness:
  "PrepareTransactionRequest
     \<lparr>tx_chain = 1, tx_to = addrT, tx_data = ''cb73d6e2'', tx_value = 0, tx_account = addrB,
      tx_gas = None\<rparr> \<in>
     set (fst (createRollupPrepareTransactionRequest exampleSdk
                 (exampleParams addrA [addrB] zeroAddress rollupJson) addrB
                 (exampleClient 1 Pending None Rejected)
                 (Some \<lparr>gasLimit = Some \<lparr>base = None, percentIncrease = 20\<rparr>\<rparr>) (Some addrT)))
   \<and> prepareTransactionRequest (exampleClient 1 Pending None Rejected)
       \<lparr>tx_chain = 1, tx_to = addrT, tx_data = ''cb73d6e2'', tx_value = 0, tx_account = addrB,
        tx_gas = None\<rparr> =
     Fulfilled \<lparr>req_to = addrT, req_data = ''cb73d6e2'', req_value = 0, req_account = addrB,
                req_gas = None\<rparr>
   \<and> snd (createRollupPrepareTransactionRequest exampleSdk
            (exampleParams addrA [addrB] zeroAddress rollupJson) addrB
            (exampleClient 1 Pending None Rejected)
            (Some \<lparr>gasLimit = Some \<lparr>base = None, percentIncrease = 20\<rparr>\<rparr>) (Some addrT)) =
       Throws MissingGasBase"
proof -
  have asked: "PrepareTransactionRequest
     \<lparr>tx_chain = 1, tx_to = addrT, tx_data = ''cb73d6e2'', tx_value = 0, tx_account = addrB,
      tx_gas = None\<rparr> \<in>
     set (fst (createRollupPrepareTransactionRequest exampleSdk
                 (exampleParams addrA [addrB] zeroAddress rollupJson) addrB
                 (exampleClient 1 Pending None Rejected)
                 (Some \<lparr>gasLimit = Some \<lparr>base = None, percentIncrease = 20\<rparr>\<rparr>) (Some addrT)))"
    by (simp add: builder_defs example_defs)
  have answered: "prepareTransactionRequest (exampleClient 1 Pending None Rejected)
       \<lparr>tx_chain = 1, tx_to = addrT, tx_data = ''cb73d6e2'', tx_value = 0, tx_account = addrB,
        tx_gas = None\<rparr> =
     Fulfilled \<lparr>req_to = addrT, req_data = ''cb73d6e2'', req_value = 0, req_account = addrB,
                req_gas = None\<rparr>"
    by (simp add: exampleClient_def)
  show ?thesis
    using asked answered missing_gas_base[OF asked answered]
    by simp
qed



section \<open>The transaction resolver\<close>

text \<open>
  Claim C4. For every call of \<open>resolveDeploymentTransactionHash\<close> on a validated parent
  chain whose event-log query for the rollup address (the initialization event, from the
  lower bound of that chain to \<open>'latest'\<close>) is answered with the list \<open>evs\<close>: if \<open>evs\<close> is
  exactly one initialization event and that event carries a transaction hash, that hash is
  returned; if the length of \<open>evs\<close> is not exactly 1 (zero, or two or more) the operation
  fails with \<open>UnexpectedEventCount\<close>; if the single event's transaction hash is absent it
  fails with \<open>MissingTransactionHash\<close>.
\<close>

theorem resolver_result:
  assumes "validateParentChain sdk publicClient = Inr cid"
    and "getLogs publicClient
           \<lparr>log_address = rollup, log_event = RollupInitializedEventAbi,
            fromBlock = fromBlockOf ch cid, toBlock = Latest\<rparr> = Fulfilled evs"
  shows "(\<forall>e h. evs = [e] \<and> transactionHash e = Some h \<longrightarrow>
            snd (createRollupFetchTransactionHash ch sdk rollup publicClient) = Returns h)
       \<and> (length evs \<noteq> 1 \<longrightarrow>
            snd (createRollupFetchTransactionHash ch sdk rollup publicClient) =
              Throws (UnexpectedEventCount rollup (length evs)))
       \<and> (\<forall>e. evs = [e] \<and> transactionHash e = None \<longrightarrow>
            snd (createRollupFetchTransactionHash ch sdk rollup publicClient) =
              Throws (MissingTransactionHash rollup))"
  using assms
  by (auto simp: createRollupFetchTransactionHash_def Let_def)

text \<open>For the rollup \<open>addrA\<close>: on mainnet, one event with the hash \<open>hashH\<close>, and no event;
  on network 42161, two events; on network 8453, which is not in the table, one event
  without a hash.\<close>

theorem resolver_result_witness:
  "validateParentChain exampleSdk
     (exampleClient 1 Pending None
        (Fulfilled [\<lparr>emitter = addrA, transactionHash = Some hashH\<rparr>])) = Inr 1
   \<and> getLogs
       (exampleClient 1 Pending None
          (Fulfilled [\<lparr>emitter = addrA, transactionHash = Some hashH\<rparr>]))
       \<lparr>log_address = addrA, log_event = RollupInitializedEventAbi,
        fromBlock = fromBlockOf exampleChains 1, toBlock = Latest\<rparr> =
     Fulfilled [\<lparr>emitter = addrA, transactionHash = Some hashH\<rparr>]
   \<and> snd (createRollupFetchTransactionHash exampleChains exampleSdk addrA
            (exampleClient 1 Pending None
               (Fulfilled [\<lparr>emitter = addrA, transactionHash = Some hashH\<rparr>]))) =
       Returns hashH
   \<and> snd (createRollupFetchTransactionHash exampleChains exampleSdk addrA
            (exampleClient 1 Pending None (Fulfilled []))) =
       Throws (UnexpectedEventCount addrA 0)
   \<and> snd (createRollupFetchTransactionHash exampleChains exampleSdk addrA
            (exampleClient 42161 Pending None
               (Fulfilled [\<lparr>emitter = addrA, transactionHash = Some hashH\<rparr>,
                           \<lparr>emitter = addrA, transactionHash = Some hashH\<rparr>]))) =
       Throws (UnexpectedEventCount addrA 2)
   \<and> snd (createRollupFetchTransactionHash exampleChains exampleSdk addrA
            (exampleClient 8453 Pending None
               (Fulfilled [\<lparr>emitter = addrA, transactionHash = None\<rparr>]))) =
       Throws (MissingTransactionHash addrA)"
proof -
  have chain: "validateParentChain exampleSdk (exampleClient 1 Pending None logs) = Inr 1"
    "validateParentChain exampleSdk (exampleClient 42161 Pending None logs) = Inr 42161"
    "validateParentChain exampleSdk (exampleClient 8453 Pending None logs) = Inr 8453"
    for logs
    by (simp_all add: validateParentChain_def exampleSdk_def exampleClient_def)
  have answered: "getLogs (exampleClient c Pending None logs) q = logs" for c logs q
    by (simp add: exampleClient_def)
  note r1 = resolver_result[OF chain(1) answered, of _ exampleChains addrA]
  note r2 = resolver_result[OF chain(2) answered, of _ exampleChains addrA]
  note r3 = resolver_result[OF chain(3) answered, of _ exampleChains addrA]
  have one: "snd (createRollupFetchTransactionHash exampleChains exampleSdk addrA
            (exampleClient 1 Pending None
               (Fulfilled [\<lparr>emitter = addrA, transactionHash = Some hashH\<rparr>]))) =
       Returns hashH"
    using r1[of "[\<lparr>emitter = addrA, transactionHash = Some hashH\<rparr>]"] by simp
  have none: "snd (createRollupFetchTransactionHash exampleChains exampleSdk addrA
            (exampleClient 1 Pending None (Fulfilled []))) =
       Throws (UnexpectedEventCount addrA 0)"
    using r1[of "[]"] by simp
  have two: "snd (createRollupFetchTransactionHash exampleChains exampleSdk addrA
            (exampleClient 42161 Pending None
               (Fulfilled [\<lparr>emitter = addrA, transactionHash = Some hashH\<rparr>,
                           \<lparr>emitter = addrA, transactionHash = Some hashH\<rparr>]))) =
       Throws (UnexpectedEventCount addrA 2)"
    using r2[of "[\<lparr>emitter = addrA, transactionHash = Some hashH\<rparr>,
                  \<lparr>emitter = addrA, transactionHash = Some hashH\<rparr>]"] by simp
  have nohash: "snd (createRollupFetchTransactionHash exampleChains exampleSdk addrA
            (exampleClient 8453 Pending None
               (Fulfilled [\<lparr>emitter = addrA, transactionHash = None\<rparr>]))) =
       Throws (MissingTransactionHash addrA)"
    using r3[of "[\<lparr>emitter = addrA, transactionHash = None\<rparr>]"] by simp
  show ?thesis
    using chain(1) answered one none two nohash by (intro conjI)
qed

text \<open>
  Claim C7. For every call of \<open>resolveDeploymentTransactionHash\<close> on a validated parent chain
  id, exactly one event-log query is made, for the initialization event of the given rollup
  address; its lower block bound is the network's tabulated earliest-deployment block
  number when the chain id is in the static table, and the genesis marker \<open>'earliest'\<close>
  when it is not; its upper bound is always the chain head \<open>'latest'\<close>.
\<close>

theorem resolver_scan_bounds:
  assumes "validateParentChain sdk publicClient = Inr cid"
  shows "\<exists>q. fst (createRollupFetchTransactionHash ch sdk rollup publicClient) = [GetLogs q]
           \<and> log_address q = rollup
           \<and> log_event q = RollupInitializedEventAbi
           \<and> toBlock q = Latest
           \<and> (\<forall>n. earliestRollupCreatorDeploymentBlockNumber ch cid = Some n \<longrightarrow>
                  fromBlock q = BlockNumber n)
           \<and> (earliestRollupCreatorDeploymentBlockNumber ch cid = None \<longrightarrow>
                  fromBlock q = Earliest)"
  using assms
  by (simp add: createRollupFetchTransactionHash_def Let_def fromBlockOf_def)

text \<open>With the public chain ids: mainnet (1) is in the table with block 18736164, the local
  test node (1337) with block 0, and the network 8453, which the example allow-list
  supports, is not in the table.\<close>

theorem resolver_scan_bounds_witness:
  "validateParentChain exampleSdk (exampleClient 1 Pending None Pending) = Inr 1
   \<and> earliestRollupCreatorDeploymentBlockNumber exampleChains 1 = Some 18736164
   \<and> fst (createRollupFetchTransactionHash exampleChains exampleSdk addrA
            (exampleClient 1 Pending None Pending)) =
       [GetLogs \<lparr>log_address = addrA, log_event = RollupInitializedEventAbi,
                 fromBlock = BlockNumber 18736164, toBlock = Latest\<rparr>]
   \<and> validateParentChain exampleSdk (exampleClient 1337 Pending None Pending) = Inr 1337
   \<and> earliestRollupCreatorDeploymentBlockNumber exampleChains 1337 = Some 0
   \<and> fst (createRollupFetchTransactionHash exampleChains exampleSdk addrA
            (exampleClient 1337 Pending None Pending)) =
       [GetLogs \<lparr>log_address = addrA, log_event = RollupInitializedEventAbi,
                 fromBlock = BlockNumber 0, toBlock = Latest\<rparr>]
   \<and> validateParentChain exampleSdk (exampleClient 8453 Pending None Pending) = Inr 8453
   \<and> earliestRollupCreatorDeploymentBlockNumber exampleChains 8453 = None
   \<and> fst (createRollupFetchTransactionHash exampleChains exampleSdk addrA
            (exampleClient 8453 Pending None Pending)) =
       [GetLogs \<lparr>log_address = addrA, log_event = RollupInitializedEventAbi,
                 fromBlock = Earliest, toBlock = Latest\<rparr>]"
proof -
  have v: "validateParentChain exampleSdk (exampleClient 1 Pending None Pending) = Inr 1"
    "validateParentChain exampleSdk (exampleClient 1337 Pending None Pending) = Inr 1337"
    "validateParentChain exampleSdk (exampleClient 8453 Pending None Pending) = Inr 8453"
    by (simp_all add: validateParentChain_def exampleSdk_def exampleClient_def)
  have t: "earliestRollupCreatorDeploymentBlockNumber exampleChains 1 = Some 18736164"
    "earliestRollupCreatorDeploymentBlockNumber exampleChains 1337 = Some 0"
    "earliestRollupCreatorDeploymentBlockNumber exampleChains 8453 = None"
    by (simp_all add: earliestRollupCreatorDeploymentBlockNumber_def exampleChains_def)
  have q: "fst r = [GetLogs \<lparr>log_address = a, log_event = e, fromBlock = f, toBlock = u\<rparr>]"
    if "\<exists>q. fst r = [GetLogs q] \<and> log_address q = a \<and> log_event q = e \<and> toBlock q = u
             \<and> (\<forall>n. tab = Some n \<longrightarrow> fromBlock q = BlockNumber n)
             \<and> (tab = None \<longrightarrow> fromBlock q = Earliest)"
      and "f = (case tab of Some n \<Rightarrow> BlockNumber n | None \<Rightarrow> Earliest)"
    for r :: "rpc_call list \<times> hash outcome" and a e f u tab
    using that by (cases tab) auto
  have a: "fst (createRollupFetchTransactionHash exampleChains exampleSdk addrA
            (exampleClient 1 Pending None Pending)) =
       [GetLogs \<lparr>log_address = addrA, log_event = RollupInitializedEventAbi,
                 fromBlock = BlockNumber 18736164, toBlock = Latest\<rparr>]"
    by (rule q[OF resolver_scan_bounds[OF v(1)]]) (simp only: t option.case)
  have b: "fst (createRollupFetchTransactionHash exampleChains exampleSdk addrA
            (exampleClient 1337 Pending None Pending)) =
       [GetLogs \<lparr>log_address = addrA, log_event = RollupInitializedEventAbi,
                 fromBlock = BlockNumber 0, toBlock = Latest\<rparr>]"
    by (rule q[OF resolver_scan_bounds[OF v(2)]]) (simp only: t option.case)
  have c: "fst (createRollupFetchTransactionHash exampleChains exampleSdk addrA
            (exampleClient 8453 Pending None Pending)) =
       [GetLogs \<lparr>log_address = addrA, log_event = RollupInitializedEventAbi,
                 fromBlock = Earliest, toBlock = Latest\<rparr>]"
    by (rule q[OF resolver_scan_bounds[OF v(3)]]) (simp only: t option.case)
  show ?thesis
    using v t a b c by (intro conjI)
qed

section \<open>The retryable ticket tracker\<close>

text \<open>
  Claim C5. For every call of \<open>trackRetryables\<close> whose parent receipt derives exactly one
  retryable-ticket message: if the wait for the ticket ends with the status \<open>REDEEMED\<close>, the
  operation returns exactly one receipt, the redemption receipt in its normalized
  (child-chain client) form; if it ends with any other status, the operation fails with
  \<open>TicketNotRedeemed\<close>, so it returns no receipt.
\<close>

theorem single_ticket:
  assumes "getL1ToL2Messages lib (viemTransactionReceiptToEthersTransactionReceipt lib txReceipt)
             (publicClientToProvider lib orbitPublicClient) = Fulfilled [m]"
  shows "(\<forall>r. waitForStatus m = Fulfilled (REDEEMED r) \<longrightarrow>
            snd (waitForRetryables lib txReceipt orbitPublicClient) =
              Returns [ethersTransactionReceiptToViemTransactionReceipt lib r])
       \<and> (\<forall>s. waitForStatus m = Fulfilled s \<and> (\<forall>r. s \<noteq> REDEEMED r) \<longrightarrow>
            snd (waitForRetryables lib txReceipt orbitPublicClient) =
              Throws (TicketNotRedeemed (retryableCreationId m)))"
  using assms
  by (auto simp: waitForRetryables_def Let_def split: L1ToL2MessageWaitResult.splits)

text \<open>One ticket that is redeemed with the receipt \<open>0xabc\<close>, one that expired, one whose
  creation failed.\<close>

theorem single_ticket_witness:
  "getL1ToL2Messages
     (exampleLib (Fulfilled [exampleMessage ''ticket-1'' (Fulfilled (REDEEMED ''0xabc''))]))
     (viemTransactionReceiptToEthersTransactionReceipt
        (exampleLib (Fulfilled [exampleMessage ''ticket-1'' (Fulfilled (REDEEMED ''0xabc''))]))
        ''0xparent'')
     (publicClientToProvider
        (exampleLib (Fulfilled [exampleMessage ''ticket-1'' (Fulfilled (REDEEMED ''0xabc''))]))
        (412346::nat)) =
     Fulfilled [exampleMessage ''ticket-1'' (Fulfilled (REDEEMED ''0xabc''))]
   \<and> snd (waitForRetryables
            (exampleLib (Fulfilled [exampleMessage ''ticket-1'' (Fulfilled (REDEEMED ''0xabc''))]))
            ''0xparent'' (412346::nat)) =
       Returns [''viem:0xabc'']
   \<and> snd (waitForRetryables
            (exampleLib (Fulfilled [exampleMessage ''ticket-1'' (Fulfilled EXPIRED)]))
            ''0xparent'' (412346::nat)) =
       Throws (TicketNotRedeemed ''ticket-1'')
   \<and> snd (waitForRetryables
            (exampleLib (Fulfilled [exampleMessage ''ticket-1'' (Fulfilled CREATION_FAILED)]))
            ''0xparent'' (412346::nat)) =
       Throws (TicketNotRedeemed ''ticket-1'')"
proof -
  have derived: "getL1ToL2Messages (exampleLib ms)
       (viemTransactionReceiptToEthersTransactionReceipt (exampleLib ms) ''0xparent'')
       (publicClientToProvider (exampleLib ms) (412346::nat)) = ms" for ms
    by (simp add: exampleLib_def)
  note r = single_ticket[OF derived]
  have redeemed: "snd (waitForRetryables
            (exampleLib (Fulfilled [exampleMessage ''ticket-1'' (Fulfilled (REDEEMED ''0xabc''))]))
            ''0xparent'' (412346::nat)) =
       Returns [''viem:0xabc'']"
    using r[of "exampleMessage ''ticket-1'' (Fulfilled (REDEEMED ''0xabc''))"]
    by (simp add: exampleMessage_def exampleLib_def)
  have expired: "snd (waitForRetryables
            (exampleLib (Fulfilled [exampleMessage ''ticket-1'' (Fulfilled EXPIRED)]))
            ''0xparent'' (412346::nat)) =
       Throws (TicketNotRedeemed ''ticket-1'')"
    using r[of "exampleMessage ''ticket-1'' (Fulfilled EXPIRED)"]
    by (simp add: exampleMessage_def)
  have failed: "snd (waitForRetryables
            (exampleLib (Fulfilled [exampleMessage ''ticket-1'' (Fulfilled CREATION_FAILED)]))
            ''0xparent'' (412346::nat)) =
       Throws (TicketNotRedeemed ''ticket-1'')"
    using r[of "exampleMessage ''ticket-1'' (Fulfilled CREATION_FAILED)"]
    by (simp add: exampleMessage_def)
  show ?thesis
    using derived redeemed expired failed by (intro conjI)
qed

text \<open>
  Claim C6, as amended. For every call of \<open>trackRetryables\<close> whose parent receipt derives
  the retryable-ticket messages \<open>ms\<close>, whatever their number: the waits for all the
  messages are started, and they are joined before the count is checked. So when some wait
  fails, the whole operation fails with that failure; when no wait fails but some wait
  never completes, the operation never settles; and when every wait completes and the
  number of messages is not exactly 1 (zero, or two or more), the operation fails with
  \<open>UnexpectedTicketCount\<close>.
\<close>

theorem ticket_count:
  assumes "getL1ToL2Messages lib (viemTransactionReceiptToEthersTransactionReceipt lib txReceipt)
             (publicClientToProvider lib orbitPublicClient) = Fulfilled ms"
  shows "fst (waitForRetryables lib txReceipt orbitPublicClient) =
           GetL1ToL2Messages # map WaitForStatus ms
       \<and> ((\<exists>m \<in> set ms. waitForStatus m = Rejected) \<longrightarrow>
            snd (waitForRetryables lib txReceipt orbitPublicClient) = Throws CollaboratorFailure)
       \<and> ((\<forall>m \<in> set ms. waitForStatus m \<noteq> Rejected) \<and> (\<exists>m \<in> set ms. waitForStatus m = Pending) \<longrightarrow>
            snd (waitForRetryables lib txReceipt orbitPublicClient) = NeverSettles)
       \<and> (length ms \<noteq> 1 \<and> (\<forall>m \<in> set ms. \<exists>s. waitForStatus m = Fulfilled s) \<longrightarrow>
            snd (waitForRetryables lib txReceipt orbitPublicClient) =
              Throws (UnexpectedTicketCount (length ms)))"
proof (intro conjI impI)
  show "fst (waitForRetryables lib txReceipt orbitPublicClient) =
          GetL1ToL2Messages # map WaitForStatus ms"
    using assms by (simp add: waitForRetryables_def Let_def)
next
  assume "\<exists>m \<in> set ms. waitForStatus m = Rejected"
  then have "Rejected \<in> set (map waitForStatus ms)" by force
  then have "Promise_all (map waitForStatus ms) = Rejected"
    by (simp add: Promise_all_Rejected_iff)
  then show "snd (waitForRetryables lib txReceipt orbitPublicClient) = Throws CollaboratorFailure"
    using assms by (simp add: waitForRetryables_def Let_def)
next
  assume "(\<forall>m \<in> set ms. waitForStatus m \<noteq> Rejected) \<and> (\<exists>m \<in> set ms. waitForStatus m = Pending)"
  then have "Rejected \<notin> set (map waitForStatus ms) \<and> Pending \<in> set (map waitForStatus ms)"
    by force
  then have "Promise_all (map waitForStatus ms) = Pending"
    by (simp add: Promise_all_Pending_iff)
  then show "snd (waitForRetryables lib txReceipt orbitPublicClient) = NeverSettles"
    using assms by (simp add: waitForRetryables_def Let_def)
next
  assume a: "length ms \<noteq> 1 \<and> (\<forall>m \<in> set ms. \<exists>s. waitForStatus m = Fulfilled s)"
  then have "\<forall>p \<in> set (map waitForStatus ms). \<exists>x. p = Fulfilled x" by auto
  from Promise_all_all_fulfilled[OF this]
  obtain xs where "Promise_all (map waitForStatus ms) = Fulfilled xs" "length xs = length ms"
    by auto
  then show "snd (waitForRetryables lib txReceipt orbitPublicClient) =
               Throws (UnexpectedTicketCount (length ms))"
    using assms a by (simp add: waitForRetryables_def Let_def)
qed

text \<open>No ticket at all; two tickets that are both redeemed; a single ticket whose wait is
  rejected; a single ticket whose wait never completes.\<close>

theorem ticket_count_witness:
  "getL1ToL2Messages (exampleLib (Fulfilled []))
     (viemTransactionReceiptToEthersTransactionReceipt (exampleLib (Fulfilled [])) ''0xparent'')
     (publicClientToProvider (exampleLib (Fulfilled [])) (412346::nat)) = Fulfilled []
   \<and> waitForRetryables (exampleLib (Fulfilled [])) ''0xparent'' (412346::nat) =
       ([GetL1ToL2Messages], Throws (UnexpectedTicketCount 0))
   \<and> waitForRetryables
       (exampleLib
          (Fulfilled [exampleMessage ''ticket-1'' (Fulfilled (REDEEMED ''0xabc'')),
                      exampleMessage ''ticket-2'' (Fulfilled (REDEEMED ''0xdef''))]))
       ''0xparent'' (412346::nat) =
       ([GetL1ToL2Messages,
         WaitForStatus (exampleMessage ''ticket-1'' (Fulfilled (REDEEMED ''0xabc''))),
         WaitForStatus (exampleMessage ''ticket-2'' (Fulfilled (REDEEMED ''0xdef'')))],
        Throws (UnexpectedTicketCount 2))
   \<and> waitForRetryables (exampleLib (Fulfilled [exampleMessage ''ticket-1'' Rejected]))
       ''0xparent'' (412346::nat) =
       ([GetL1ToL2Messages, WaitForStatus (exampleMessage ''ticket-1'' Rejected)],
        Throws CollaboratorFailure)
   \<and> waitForRetryables (exampleLib (Fulfilled [exampleMessage ''ticket-1'' Pending]))
       ''0xparent'' (412346::nat) =
       ([GetL1ToL2Messages, WaitForStatus (exampleMessage ''ticket-1'' Pending)],
        NeverSettles)"
proof -
  have derived: "getL1ToL2Messages (exampleLib ms)
       (viemTransactionReceiptToEthersTransactionReceipt (exampleLib ms) ''0xparent'')
       (publicClientToProvider (exampleLib ms) (412346::nat)) = ms" for ms
    by (simp add: exampleLib_def)
  let ?two = "[exampleMessage ''ticket-1'' (Fulfilled (REDEEMED ''0xabc'')),
               exampleMessage ''ticket-2'' (Fulfilled (REDEEMED ''0xdef''))]"
  have zero: "waitForRetryables (exampleLib (Fulfilled [])) ''0xparent'' (412346::nat) =
       ([GetL1ToL2Messages], Throws (UnexpectedTicketCount 0))"
    using ticket_count[OF derived, of "[]"] by (simp add: prod_eq_iff)
  have two: "waitForRetryables (exampleLib (Fulfilled ?two)) ''0xparent'' (412346::nat) =
       ([GetL1ToL2Messages,
         WaitForStatus (exampleMessage ''ticket-1'' (Fulfilled (REDEEMED ''0xabc''))),
         WaitForStatus (exampleMessage ''ticket-2'' (Fulfilled (REDEEMED ''0xdef'')))],
        Throws (UnexpectedTicketCount 2))"
    using ticket_count[OF derived, of ?two] by (simp add: prod_eq_iff exampleMessage_def)
  have rejected: "waitForRetryables (exampleLib (Fulfilled [exampleMessage ''ticket-1'' Rejected]))
       ''0xparent'' (412346::nat) =
       ([GetL1ToL2Messages, WaitForStatus (exampleMessage ''ticket-1'' Rejected)],
        Throws CollaboratorFailure)"
    using ticket_count[OF derived, of "[exampleMessage ''ticket-1'' Rejected]"]
    by (simp add: prod_eq_iff exampleMessage_def)
  have pending: "waitForRetryables (exampleLib (Fulfilled [exampleMessage ''ticket-1'' Pending]))
       ''0xparent'' (412346::nat) =
       ([GetL1ToL2Messages, WaitForStatus (exampleMessage ''ticket-1'' Pending)],
        NeverSettles)"
    using ticket_count[OF derived, of "[exampleMessage ''ticket-1'' Pending]"]
    by (simp add: prod_eq_iff exampleMessage_def)
  show ?thesis
    using derived[of "Fulfilled []"] zero two rejected pending by (intro conjI)
qed

text \<open>The claim as written fails when a wait fails: of two derived tickets, the second
  wait is rejected, and the operation fails with that rejection, not with the count.\<close>

theorem ticket_count_counterexample:
  "length [exampleMessage ''ticket-1'' (Fulfilled (REDEEMED ''0xabc'')),
           exampleMessage ''ticket-2'' Rejected] \<noteq> 1
   \<and> snd (waitForRetryables
            (exampleLib
               (Fulfilled [exampleMessage ''ticket-1'' (Fulfilled (REDEEMED ''0xabc'')),
                           exampleMessage ''ticket-2'' Rejected]))
            ''0xparent'' (412346::nat)) =
       Throws CollaboratorFailure
   \<and> snd (waitForRetryables
            (exampleLib
               (Fulfilled [exampleMessage ''ticket-1'' (Fulfilled (REDEEMED ''0xabc'')),
                           exampleMessage ''ticket-2'' Rejected]))
            ''0xparent'' (412346::nat)) \<noteq>
       Throws (UnexpectedTicketCount 2)"
  by (simp add: waitForRetryables_def Let_def exampleLib_def exampleMessage_def)

end
